theory Spec2Isabelle
  imports Main
begin

section \<open>Python values and exceptions\<close>

text \<open>
  The router \<^verbatim>\<open>src/routers/deepseek.py\<close> handles values produced by \<^verbatim>\<open>json.loads\<close>
  and \<^verbatim>\<open>yaml.safe_load\<close>: None, booleans, integers, floats, strings, lists and
  dictionaries with string keys.  A Python \<^verbatim>\<open>str\<close> is held as its UTF-8 encoding, a
  \<^verbatim>\<open>bytes\<close> object as its bytes; both are HOL strings, whose characters are bytes.
  A float is held as mantissa and binary exponent; the router never computes with one.
  A dictionary is an association list in insertion order, read with \<open>map_of\<close>.
\<close>

type_synonym bytes = string
type_synonym str = string

datatype pyval =
    PNone
  | PBool bool
  | PInt int
  | PFloat int int
  | PStr str
  | PList "pyval list"
  | PDict "(str \<times> pyval) list"

datatype pyexc =
    AttributeError
  | IndexError
  | KeyError
  | TypeError
  | UnicodeDecodeError
  | UnboundLocalError
  | RecursionError
  | ValueError
  | JSONDecodeError
  | OSError
  | ConnectionError
  | HTTPError int bytes

text \<open>\<^verbatim>\<open>bool(v)\<close>, as \<^verbatim>\<open>if not v\<close> and \<^verbatim>\<open>a or b\<close> use it.\<close>

fun truthy :: "pyval \<Rightarrow> bool" where
  "truthy PNone = False"
| "truthy (PBool b) = b"
| "truthy (PInt i) = (i \<noteq> 0)"
| "truthy (PFloat m e) = (m \<noteq> 0)"
| "truthy (PStr s) = (s \<noteq> [])"
| "truthy (PList xs) = (xs \<noteq> [])"
| "truthy (PDict kvs) = (kvs \<noteq> [])"

text \<open>\<^verbatim>\<open>d.get(k, default)\<close>: only a dictionary has the method.\<close>

fun py_get :: "pyval \<Rightarrow> str \<Rightarrow> pyval \<Rightarrow> pyexc + pyval" where
  "py_get (PDict kvs) k dflt = Inr (case map_of kvs k of Some v \<Rightarrow> v | None \<Rightarrow> dflt)"
| "py_get v k dflt = Inl AttributeError"

text \<open>The number of bytes of the UTF-8 sequence that a lead byte opens.\<close>

definition utf8_width :: "char \<Rightarrow> nat" where
  "utf8_width c =
     (let n = (of_char c :: nat) in
      if n < 0x80 then 1 else if n < 0xE0 then 2 else if n < 0xF0 then 3 else 4)"

text \<open>
  \<^verbatim>\<open>v[0]\<close>: the first element of a list, the first character of a string; IndexError on
  an empty one, KeyError on a dictionary (its keys are strings), TypeError on a value
  that cannot be subscripted.
\<close>

fun py_index0 :: "pyval \<Rightarrow> pyexc + pyval" where
  "py_index0 (PList []) = Inl IndexError"
| "py_index0 (PList (x # xs)) = Inr x"
| "py_index0 (PStr []) = Inl IndexError"
| "py_index0 (PStr (c # cs)) = Inr (PStr (take (utf8_width c) (c # cs)))"
| "py_index0 (PDict kvs) = Inl KeyError"
| "py_index0 v = Inl TypeError"

text \<open>Sequencing of steps that may raise.\<close>

definition bind_exc :: "pyexc + 'a \<Rightarrow> ('a \<Rightarrow> pyexc + 'b) \<Rightarrow> pyexc + 'b" where
  "bind_exc m f = (case m of Inl e \<Rightarrow> Inl e | Inr v \<Rightarrow> f v)"

subsection \<open>Decoding bytes as UTF-8\<close>

text \<open>
  \<^verbatim>\<open>line.decode('utf-8')\<close> raises UnicodeDecodeError unless the bytes are well-formed
  UTF-8 (no overlong form, no surrogate, nothing above U+10FFFF).  As a string is held
  as its encoding, a successful decode returns the bytes unchanged.
\<close>

definition cont_byte :: "nat \<Rightarrow> bool" where
  "cont_byte n = (0x80 \<le> n \<and> n \<le> 0xBF)"

fun utf8_ok :: "nat list \<Rightarrow> bool" where
  "utf8_ok [] = True"
| "utf8_ok (a # bs) =
     (if a < 0x80 then utf8_ok bs
      else if 0xC2 \<le> a \<and> a \<le> 0xDF then
        (case bs of b # r \<Rightarrow> cont_byte b \<and> utf8_ok r | _ \<Rightarrow> False)
      else if 0xE0 \<le> a \<and> a \<le> 0xEF then
        (case bs of b # c # r \<Rightarrow>
           (if a = 0xE0 then 0xA0 \<le> b \<and> b \<le> 0xBF
            else if a = 0xED then 0x80 \<le> b \<and> b \<le> 0x9F
            else cont_byte b) \<and> cont_byte c \<and> utf8_ok r
         | _ \<Rightarrow> False)
      else if 0xF0 \<le> a \<and> a \<le> 0xF4 then
        (case bs of b # c # d # r \<Rightarrow>
           (if a = 0xF0 then 0x90 \<le> b \<and> b \<le> 0xBF
            else if a = 0xF4 then 0x80 \<le> b \<and> b \<le> 0x8F
            else cont_byte b) \<and> cont_byte c \<and> cont_byte d \<and> utf8_ok r
         | _ \<Rightarrow> False)
      else False)"

definition decode_utf8 :: "bytes \<Rightarrow> str option" where
  "decode_utf8 bs = (if utf8_ok (map of_char bs) then Some bs else None)"

definition startswith :: "str \<Rightarrow> str \<Rightarrow> bool" where
  "startswith s p = (take (length p) s = p)"

section \<open>The streaming relay: \<^verbatim>\<open>generate\<close>\<close>

text \<open>
  The upstream answer to \<^verbatim>\<open>requests.post(..., stream=True)\<close>: its status, its body
  text, the lines that \<^verbatim>\<open>iter_lines()\<close> delivers and how the line iterator ends (the
  connection is closed in order, or is lost and the iterator raises).
\<close>

datatype stream_end = Closed | Dropped

record response =
  status_code :: int
  body_text :: bytes
  lines :: "bytes list"
  ending :: stream_end

datatype reply = NoReply | Reply response

text \<open>
  The dictionary that one \<^verbatim>\<open>yield\<close> of the generator serialises: the chunk written
  downstream is \<^verbatim>\<open>data: \<close>, \<^verbatim>\<open>json.dumps\<close> of this dictionary and two newlines.
\<close>

definition event :: "pyval \<Rightarrow> pyval \<Rightarrow> pyval" where
  "event content finish_reason =
     PDict [(''content'', content), (''finish_reason'', finish_reason)]"

text \<open>The marker text of an undecodable frame, in UTF-8.\<close>

definition parse_error_marker :: str where
  "parse_error_marker =
     [CHR ''['',
      CHR 0xE8, CHR 0xA7, CHR 0xA3, CHR 0xE6, CHR 0x9E, CHR 0x90,
      CHR 0xE9, CHR 0x94, CHR 0x99, CHR 0xE8, CHR 0xAF, CHR 0xAF,
      CHR '']'']"

definition stop_event :: pyval where
  "stop_event = event (PStr []) (PStr ''stop'')"

definition marker_event :: pyval where
  "marker_event = event (PStr parse_error_marker) PNone"

definition done_line :: bytes where
  "done_line = ''data: [DONE]''"

text \<open>
  The body of the \<^verbatim>\<open>try\<close> after \<^verbatim>\<open>json.loads\<close> has returned \<open>data\<close>: the two
  \<^verbatim>\<open>.get\<close> chains, in the order of the source.  None of their exceptions is a
  JSONDecodeError.
\<close>

definition extract_event :: "pyval \<Rightarrow> pyexc + pyval" where
  "extract_event data =
     bind_exc (py_get data ''choices'' (PList [PDict []])) (\<lambda>choices.
     bind_exc (py_index0 choices) (\<lambda>choice.
     bind_exc (py_get choice ''delta'' (PDict [])) (\<lambda>delta.
     bind_exc (py_get delta ''content'' (PStr [])) (\<lambda>content.
     bind_exc (py_get data ''choices'' (PList [PDict []])) (\<lambda>choices'.
     bind_exc (py_index0 choices') (\<lambda>choice'.
     bind_exc (py_get choice' ''finish_reason'' PNone) (\<lambda>finish_reason.
     Inr (event content finish_reason))))))))"

text \<open>
  The decoder \<open>loads\<close> stands for \<^verbatim>\<open>json.loads\<close>: it returns the decoded value or
  raises.  Besides JSONDecodeError it raises RecursionError on a payload nested too
  deeply and a plain ValueError on an integer literal above the digit limit; the
  \<^verbatim>\<open>except json.JSONDecodeError\<close> clause catches only the first.
\<close>

type_synonym decoder = "str \<Rightarrow> pyexc + pyval"

text \<open>
  One pass through the body of the \<^verbatim>\<open>for\<close> loop (lines 373 to 388), for a run that has
  reached the loop.
\<close>

datatype step = Skip | Yield pyval | YieldBreak pyval | Raise pyexc

definition process_line :: "decoder \<Rightarrow> bytes \<Rightarrow> step" where
  "process_line loads line =
     (if line = [] then Skip
      else case decode_utf8 line of
        None \<Rightarrow> Raise UnicodeDecodeError
      | Some line_str \<Rightarrow>
          if startswith line_str ''data: '' then
            (let data_str = drop 6 line_str in
             if data_str = ''[DONE]'' then YieldBreak stop_event
             else case loads data_str of
               Inl x \<Rightarrow> if x = JSONDecodeError then Yield marker_event else Raise x
             | Inr data \<Rightarrow>
                 (case extract_event data of
                    Inl e \<Rightarrow> Raise e
                  | Inr ev \<Rightarrow> Yield ev))
          else Skip)"

text \<open>How a run of the generator ends, after the events it has yielded.\<close>

datatype gen_end = Returned | Raised pyexc

text \<open>
  The \<^verbatim>\<open>for line in response.iter_lines()\<close> loop (lines 372 to 388) alone: what the
  loop yields once a run has reached it.  It is one part of \<open>generate\<close> below, which
  starts at line 368; a statement about the relay is a statement about \<open>generate\<close>.
\<close>

fun relay_lines :: "decoder \<Rightarrow> bytes list \<Rightarrow> stream_end \<Rightarrow> pyval list \<times> gen_end" where
  "relay_lines loads [] Closed = ([], Returned)"
| "relay_lines loads [] Dropped = ([], Raised ConnectionError)"
| "relay_lines loads (line # rest) e =
     (case process_line loads line of
        Skip \<Rightarrow> relay_lines loads rest e
      | Yield ev \<Rightarrow> (ev # fst (relay_lines loads rest e), snd (relay_lines loads rest e))
      | YieldBreak ev \<Rightarrow> ([ev], Returned)
      | Raise x \<Rightarrow> ([], Raised x))"

text \<open>\<^verbatim>\<open>response.raise_for_status()\<close> raises for a 4xx or 5xx status only.\<close>

definition raise_for_status :: "response \<Rightarrow> pyexc option" where
  "raise_for_status r =
     (if 400 \<le> status_code r \<and> status_code r < 600
      then Some (HTTPError (status_code r) (body_text r)) else None)"

text \<open>
  The statements of \<^verbatim>\<open>generate\<close> from the moment \<^verbatim>\<open>requests.post\<close> has answered: the
  status check and the loop.  A run gets here only when line 368 has not raised.
\<close>

definition generate_body :: "decoder \<Rightarrow> reply \<Rightarrow> pyval list \<times> gen_end" where
  "generate_body loads upstream =
     (case upstream of
        NoReply \<Rightarrow> ([], Raised ConnectionError)
      | Reply r \<Rightarrow>
          (case raise_for_status r of
             Some x \<Rightarrow> ([], Raised x)
           | None \<Rightarrow> relay_lines loads (lines r) (ending r)))"

section \<open>Module state and requests\<close>

text \<open>The module globals that the endpoints read; \<^verbatim>\<open>set_api_key\<close> rebinds two of them.\<close>

record settings =
  API_KEY :: pyval
  API_BASE :: pyval
  DEFAULT_MODEL :: pyval
  SSL_VERIFY :: pyval
  config :: pyval
  deepseek_config :: pyval

text \<open>
  \<^verbatim>\<open>load_config\<close>: the parsed configuration file, or the empty dictionary when opening,
  reading or parsing raises.  The file is given by its content (\<open>None\<close> when it cannot
  be read) and \<open>yaml_load\<close> stands for \<^verbatim>\<open>yaml.safe_load\<close>.
\<close>

definition load_config :: "(str \<Rightarrow> pyval option) \<Rightarrow> str option \<Rightarrow> pyval" where
  "load_config yaml_load file =
     (case file of
        None \<Rightarrow> PDict []
      | Some content \<Rightarrow> (case yaml_load content of None \<Rightarrow> PDict [] | Some v \<Rightarrow> v))"

text \<open>
  The assignments at import time (lines 98 to 105).  \<open>environ\<close> is the value of the
  environment variable \<^verbatim>\<open>DEEPSEEK_API_KEY\<close>, \<open>None\<close> when it is not set; the default
  of \<^verbatim>\<open>os.environ.get\<close> is evaluated before the call.
\<close>

definition module_init :: "str option \<Rightarrow> pyval \<Rightarrow> pyexc + settings" where
  "module_init environ cfg =
     bind_exc (py_get cfg ''deepseek'' (PDict [])) (\<lambda>dc.
     bind_exc (py_get dc ''api_key'' (PStr [])) (\<lambda>file_key.
     bind_exc (py_get dc ''api_base'' (PStr ''https://api.deepseek.com/v1'')) (\<lambda>base.
     bind_exc (py_get dc ''default_model'' (PStr ''deepseek-chat'')) (\<lambda>dm.
     bind_exc (py_get dc ''ssl_verify'' (PBool False)) (\<lambda>sv.
     Inr \<lparr> API_KEY = (case environ of Some v \<Rightarrow> PStr v | None \<Rightarrow> file_key),
           API_BASE = base, DEFAULT_MODEL = dm, SSL_VERIFY = sv,
           config = cfg, deepseek_config = dc \<rparr>)))))"

text \<open>
  An upstream request: the method, the value interpolated in front of the path, the
  path, the value interpolated after \<^verbatim>\<open>Bearer \<close> in the Authorization header, the JSON
  body and the certificate setting.
\<close>

record http_request =
  http_method :: str
  url_base :: pyval
  url_path :: str
  bearer :: pyval
  json_body :: "pyval option"
  verify :: pyval

text \<open>
  What an endpoint raises.  The message of an HTTPException is kept as its kind; an
  exception that no handler of the router catches leaves the endpoint as it is.
\<close>

datatype cause = Exc pyexc | Http int

datatype detail =
    KeyNotConfigured
  | UseStreamEndpoint
  | ApiCallError pyexc
  | ModelListError cause
  | BalanceError cause
  | CheckKeyError cause
  | SetKeyError cause
  | UpstreamRequestError

datatype failure = HTTPException int detail | Uncaught pyexc

record chat_request =
  messages :: "(str \<times> str) list"
  model :: "str option"
  temperature :: "(int \<times> int) option"
  max_tokens :: "int option"
  top_p :: "(int \<times> int) option"
  stream :: "bool option"
  json_mode :: "bool option"

definition pfloat :: "int \<times> int \<Rightarrow> pyval" where
  "pfloat f = PFloat (fst f) (snd f)"

text \<open>\<^verbatim>\<open>request.model or DEFAULT_MODEL\<close>.\<close>

definition model_or_default :: "settings \<Rightarrow> chat_request \<Rightarrow> pyval" where
  "model_or_default st req =
     (case model req of
        Some m \<Rightarrow> if m \<noteq> [] then PStr m else DEFAULT_MODEL st
      | None \<Rightarrow> DEFAULT_MODEL st)"

text \<open>
  The dictionary \<^verbatim>\<open>data\<close> that both endpoints build, with the key \<^verbatim>\<open>stream\<close> when
  \<open>streaming\<close>; the defaults are read from \<^verbatim>\<open>default_settings\<close> only when the request
  leaves the field out.
\<close>

definition build_data :: "settings \<Rightarrow> chat_request \<Rightarrow> bool \<Rightarrow> pyexc + pyval" where
  "build_data st req streaming =
     bind_exc (py_get (deepseek_config st) ''default_settings'' (PDict [])) (\<lambda>default_settings.
     bind_exc (case temperature req of
                 Some t \<Rightarrow> Inr (pfloat t)
               | None \<Rightarrow> py_get default_settings ''temperature'' (PFloat 1 0)) (\<lambda>temp.
     bind_exc (case max_tokens req of
                 Some n \<Rightarrow> Inr (PInt n)
               | None \<Rightarrow> py_get default_settings ''max_tokens'' (PInt 1000)) (\<lambda>maxt.
     Inr (PDict
       ([(''model'', model_or_default st req),
         (''messages'',
            PList (map (\<lambda>(r, c). PDict [(''role'', PStr r), (''content'', PStr c)]) (messages req))),
         (''temperature'', temp),
         (''max_tokens'', maxt)]
        @ (if streaming then [(''stream'', PBool True)] else [])
        @ (case top_p req of Some p \<Rightarrow> [(''top_p'', pfloat p)] | None \<Rightarrow> [])
        @ (if json_mode req = Some True
           then [(''response_format'', PDict [(''type'', PStr ''json_object'')])] else []))))))"

definition completions_request :: "settings \<Rightarrow> pyval \<Rightarrow> http_request" where
  "completions_request st data =
     \<lparr> http_method = ''POST'', url_base = API_BASE st, url_path = ''/chat/completions'',
       bearer = API_KEY st, json_body = Some data, verify = SSL_VERIFY st \<rparr>"

section \<open>The endpoint \<^verbatim>\<open>/chat\<close>\<close>

text \<open>
  The dictionary that \<^verbatim>\<open>chat_completion\<close> returns for a decoded upstream answer, with
  the arguments of the logging task it schedules.
\<close>

definition chat_result :: "settings \<Rightarrow> chat_request \<Rightarrow> pyval \<Rightarrow> pyexc + pyval \<times> pyval list" where
  "chat_result st req result =
     bind_exc (py_get result ''choices'' (PList [PDict []])) (\<lambda>choices.
     bind_exc (py_index0 choices) (\<lambda>choice.
     bind_exc (py_get choice ''message'' (PDict [])) (\<lambda>message.
     bind_exc (py_get message ''content'' (PStr [])) (\<lambda>content.
     bind_exc (py_get result ''choices'' (PList [PDict []])) (\<lambda>choices'.
     bind_exc (py_index0 choices') (\<lambda>choice'.
     bind_exc (py_get choice' ''finish_reason'' PNone) (\<lambda>finish_reason.
     bind_exc (py_get result ''usage'' (PDict [])) (\<lambda>usage.
     bind_exc (py_get usage ''prompt_tokens'' (PInt 0)) (\<lambda>prompt_tokens.
     bind_exc (py_get usage ''completion_tokens'' (PInt 0)) (\<lambda>completion_tokens.
     bind_exc (py_get usage ''total_tokens'' (PInt 0)) (\<lambda>total_tokens.
     bind_exc (py_get usage ''prompt_tokens_details'' (PDict [(''cached_tokens'', PInt 0)]))
       (\<lambda>prompt_tokens_details.
     Inr (PDict
            [(''content'', content),
             (''model'', model_or_default st req),
             (''usage'', PDict
                [(''prompt_tokens'', prompt_tokens),
                 (''completion_tokens'', completion_tokens),
                 (''total_tokens'', total_tokens),
                 (''prompt_tokens_details'', prompt_tokens_details)]),
             (''finish_reason'', finish_reason)],
          [model_or_default st req, prompt_tokens, completion_tokens])))))))))))))"

text \<open>
  The \<^verbatim>\<open>try\<close> block of \<^verbatim>\<open>chat_completion\<close> once the upstream has answered: only a
  \<^verbatim>\<open>RequestException\<close> (a failed connection, a 4xx or 5xx status, an undecodable body)
  becomes an HTTPException.
\<close>

definition chat_response ::
  "decoder \<Rightarrow> settings \<Rightarrow> chat_request \<Rightarrow> reply \<Rightarrow> failure + pyval \<times> pyval list" where
  "chat_response loads st req upstream =
     (case upstream of
        NoReply \<Rightarrow> Inl (HTTPException 500 (ApiCallError ConnectionError))
      | Reply r \<Rightarrow>
          (case raise_for_status r of
             Some x \<Rightarrow> Inl (HTTPException 500 (ApiCallError x))
           | None \<Rightarrow>
               (case loads (body_text r) of
                  Inl x \<Rightarrow>
                    if x = JSONDecodeError
                    then Inl (HTTPException 500 (ApiCallError JSONDecodeError))
                    else Inl (Uncaught x)
                | Inr result \<Rightarrow>
                    (case chat_result st req result of
                       Inl x \<Rightarrow> Inl (Uncaught x)
                     | Inr v \<Rightarrow> Inr v))))"

text \<open>
  \<^verbatim>\<open>chat_completion\<close>, with the list of the upstream requests it has sent.  \<open>net\<close> is
  the upstream: the answer it gives to a request.
\<close>

definition chat_completion ::
  "decoder \<Rightarrow> (http_request \<Rightarrow> reply) \<Rightarrow> settings \<Rightarrow> chat_request
     \<Rightarrow> (failure + pyval \<times> pyval list) \<times> http_request list" where
  "chat_completion loads net st req =
     (if \<not> truthy (API_KEY st) then (Inl (HTTPException 500 KeyNotConfigured), [])
      else case build_data st req False of
        Inl x \<Rightarrow> (Inl (Uncaught x), [])
      | Inr data \<Rightarrow>
          if stream req = Some True then (Inl (HTTPException 400 UseStreamEndpoint), [])
          else (let rq = completions_request st data
                in (chat_response loads st req (net rq), [rq])))"

section \<open>The endpoint \<^verbatim>\<open>/stream\<close>\<close>

text \<open>
  \<^verbatim>\<open>stream_completion\<close> checks the key, builds \<^verbatim>\<open>url\<close>, \<^verbatim>\<open>headers\<close> and \<^verbatim>\<open>data\<close>,
  defines \<^verbatim>\<open>generate\<close> and returns \<^verbatim>\<open>StreamingResponse(generate(), ...)\<close>.  Calling an
  asynchronous generator function runs none of its body, so nothing in the \<^verbatim>\<open>try\<close>
  block raises and its \<^verbatim>\<open>except\<close> clause maps no exception: the endpoint returns the
  response, whose body is the generator with the variables it closes over.
\<close>

record closure =
  cl_url_base :: pyval
  cl_bearer :: pyval
  cl_data :: pyval

definition stream_completion :: "settings \<Rightarrow> chat_request \<Rightarrow> failure + closure" where
  "stream_completion st req =
     (if \<not> truthy (API_KEY st) then Inl (HTTPException 500 KeyNotConfigured)
      else case build_data st req True of
        Inl x \<Rightarrow> Inl (Uncaught x)
      | Inr data \<Rightarrow>
          Inr \<lparr> cl_url_base = API_BASE st, cl_bearer = API_KEY st, cl_data = data \<rparr>)"

text \<open>Reading a local variable: UnboundLocalError when nothing is bound to it.\<close>

definition read_local :: "pyval option \<Rightarrow> pyexc + pyval" where
  "read_local slot = (case slot of None \<Rightarrow> Inl UnboundLocalError | Some v \<Rightarrow> Inr v)"

text \<open>
  A run of the generator.  In Python a name that is bound anywhere in a function body
  is local to that function in all of its body, and reading it before it is bound
  raises UnboundLocalError.  \<^verbatim>\<open>generate\<close> assigns \<^verbatim>\<open>data = json.loads(data_str)\<close> in its
  loop (line 382) and declares no \<^verbatim>\<open>nonlocal\<close>, so its \<^verbatim>\<open>data\<close> is such a local, not the
  dictionary \<^verbatim>\<open>data\<close> of \<^verbatim>\<open>stream_completion\<close>; \<^verbatim>\<open>url\<close> and \<^verbatim>\<open>headers\<close> are only read
  and come from the closure.  The first statement evaluates the arguments of
  \<^verbatim>\<open>requests.post\<close>, among them \<^verbatim>\<open>json=data\<close> (line 368), while the local \<^verbatim>\<open>data\<close> has
  no binding yet.  The result is the events yielded, how the run ends, and the
  requests sent.
\<close>

definition generate ::
  "decoder \<Rightarrow> (http_request \<Rightarrow> reply) \<Rightarrow> settings \<Rightarrow> closure
     \<Rightarrow> (pyval list \<times> gen_end) \<times> http_request list" where
  "generate loads net st cl =
     (let data = None in
      case read_local data of
        Inl x \<Rightarrow> (([], Raised x), [])
      | Inr d \<Rightarrow>
          (let rq = \<lparr> http_method = ''POST'', url_base = cl_url_base cl,
                      url_path = ''/chat/completions'', bearer = cl_bearer cl,
                      json_body = Some d, verify = SSL_VERIFY st \<rparr>
           in (generate_body loads (net rq), [rq])))"

text \<open>
  The endpoint as the framework serves it: an exception of \<^verbatim>\<open>stream_completion\<close> is
  the answer, otherwise the returned response is sent by running its generator.
\<close>

definition stream_endpoint ::
  "decoder \<Rightarrow> (http_request \<Rightarrow> reply) \<Rightarrow> settings \<Rightarrow> chat_request
     \<Rightarrow> (failure + pyval list \<times> gen_end) \<times> http_request list" where
  "stream_endpoint loads net st req =
     (case stream_completion st req of
        Inl f \<Rightarrow> (Inl f, [])
      | Inr cl \<Rightarrow> (Inr (fst (generate loads net st cl)), snd (generate loads net st cl)))"

section \<open>The account endpoints\<close>

text \<open>
  \<^verbatim>\<open>list_models\<close>, \<^verbatim>\<open>get_user_balance\<close> and \<^verbatim>\<open>check_api_key\<close> up to the upstream request
  they send: the endpoint fails, answers without a request, or sends one.  An
  HTTPException raised inside their \<^verbatim>\<open>try\<close> is itself caught by \<^verbatim>\<open>except Exception\<close>
  and raised again with status 500.
\<close>

datatype 'a call = Fail failure | Answer 'a | Send http_request

record key_status =
  is_set :: bool
  is_valid :: bool

definition config_get :: "settings \<Rightarrow> str \<Rightarrow> pyval \<Rightarrow> pyexc + pyval" where
  "config_get st k dflt = bind_exc (py_get (config st) ''deepseek'' (PDict [])) (\<lambda>d. py_get d k dflt)"

definition models_request :: "settings \<Rightarrow> pyval \<Rightarrow> str \<Rightarrow> pyval \<Rightarrow> http_request" where
  "models_request st base path key =
     \<lparr> http_method = ''GET'', url_base = base, url_path = path, bearer = key,
       json_body = None, verify = SSL_VERIFY st \<rparr>"

definition list_models :: "settings \<Rightarrow> unit call" where
  "list_models st =
     (case config_get st ''api_key'' PNone of
        Inl x \<Rightarrow> Fail (HTTPException 500 (ModelListError (Exc x)))
      | Inr api_key \<Rightarrow>
          if \<not> truthy api_key then Fail (HTTPException 500 (ModelListError (Http 401)))
          else case config_get st ''api_base'' (PStr ''https://api.deepseek.com/v1'') of
            Inl x \<Rightarrow> Fail (HTTPException 500 (ModelListError (Exc x)))
          | Inr api_base \<Rightarrow> Send (models_request st api_base ''/models'' api_key))"

definition get_user_balance :: "settings \<Rightarrow> unit call" where
  "get_user_balance st =
     (case config_get st ''api_key'' PNone of
        Inl x \<Rightarrow> Fail (HTTPException 500 (BalanceError (Exc x)))
      | Inr api_key \<Rightarrow>
          if \<not> truthy api_key then Fail (HTTPException 500 (BalanceError (Http 401)))
          else case config_get st ''api_base'' (PStr ''https://api.deepseek.com/v1'') of
            Inl x \<Rightarrow> Fail (HTTPException 500 (BalanceError (Exc x)))
          | Inr api_base \<Rightarrow> Send (models_request st api_base ''/user/balance'' api_key))"

definition check_api_key :: "settings \<Rightarrow> key_status call" where
  "check_api_key st =
     (case (if truthy (API_KEY st) then Inr (API_KEY st)
            else config_get st ''api_key'' (PStr [])) of
        Inl x \<Rightarrow> Fail (HTTPException 500 (CheckKeyError (Exc x)))
      | Inr api_key \<Rightarrow>
          if \<not> truthy api_key then Answer \<lparr> is_set = False, is_valid = False \<rparr>
          else case config_get st ''api_base'' (PStr ''https://api.deepseek.com/v1'') of
            Inl x \<Rightarrow> Fail (HTTPException 500 (CheckKeyError (Exc x)))
          | Inr api_base \<Rightarrow> Send (models_request st api_base ''/models'' api_key))"

subsection \<open>\<^verbatim>\<open>set_api_key\<close>\<close>

datatype key_message = KeyInvalid | KeySaved | SaveFailed

record api_key_response =
  success :: bool
  message :: key_message

text \<open>
  The configuration file as \<^verbatim>\<open>set_api_key\<close> meets it: its content (\<open>None\<close> when opening
  or reading it raises) and whether opening it for writing and writing succeed.
\<close>

record files =
  config_file :: "str option"
  writable :: bool

text \<open>
  The inner \<^verbatim>\<open>try\<close> of \<^verbatim>\<open>set_api_key\<close>: read the file, patch the field, write the file,
  load the configuration again.  \<open>None\<close> when a step raises; otherwise the new
  configuration and the text written.  The text patcher \<^verbatim>\<open>update_yaml_field\<close> (lines 121
  to 234) only produces the text that is written; it is the parameter \<open>patch\<close>, from
  the old text and the key to the new text, \<open>None\<close> should it raise.
\<close>

definition persist_key ::
  "(str \<Rightarrow> str \<Rightarrow> str option) \<Rightarrow> (str \<Rightarrow> pyval option) \<Rightarrow> files \<Rightarrow> str \<Rightarrow> (pyval \<times> str) option" where
  "persist_key patch yaml_load fs key =
     (case config_file fs of
        None \<Rightarrow> None
      | Some content \<Rightarrow>
          (case patch content key of
             None \<Rightarrow> None
           | Some updated_content \<Rightarrow>
               if \<not> writable fs then None
               else Some (load_config yaml_load (Some updated_content), updated_content)))"

text \<open>
  \<^verbatim>\<open>set_api_key\<close>: the answer, the module state afterwards, the requests sent and the
  text written to the file, if any.
\<close>

definition set_api_key ::
  "(http_request \<Rightarrow> reply) \<Rightarrow> (str \<Rightarrow> str \<Rightarrow> str option) \<Rightarrow> (str \<Rightarrow> pyval option) \<Rightarrow> files
     \<Rightarrow> settings \<Rightarrow> str
     \<Rightarrow> (failure + api_key_response) \<times> settings \<times> http_request list \<times> str option" where
  "set_api_key net patch yaml_load fs st key =
     (case config_get st ''api_base'' (PStr ''https://api.deepseek.com/v1'') of
        Inl x \<Rightarrow> (Inl (HTTPException 500 (SetKeyError (Exc x))), st, [], None)
      | Inr api_base \<Rightarrow>
          (let rq = models_request st api_base ''/models'' (PStr key) in
           case net rq of
             NoReply \<Rightarrow> (Inl (HTTPException 500 UpstreamRequestError), st, [rq], None)
           | Reply r \<Rightarrow>
               if status_code r \<noteq> 200
               then (Inr \<lparr> success = False, message = KeyInvalid \<rparr>, st, [rq], None)
               else (let st' = st \<lparr> API_KEY := PStr key \<rparr> in
                     case persist_key patch yaml_load fs key of
                       None \<Rightarrow>
                         (Inr \<lparr> success = False, message = SaveFailed \<rparr>, st', [rq], None)
                     | Some (cfg, updated_content) \<Rightarrow>
                         (Inr \<lparr> success = True, message = KeySaved \<rparr>,
                          st' \<lparr> config := cfg \<rparr>, [rq], Some updated_content))))"

section \<open>Frames and their events, as the specification words them\<close>

text \<open>
  A data frame is a line that begins with \<^verbatim>\<open>data: \<close>; its payload is the rest.  The
  event of a frame has as content \<^verbatim>\<open>choices[0].delta.content\<close>, the empty string when
  absent, and as finish reason \<^verbatim>\<open>choices[0].finish_reason\<close>, null when absent; an
  undecodable payload gives the marker event.
\<close>

definition is_data_frame :: "bytes \<Rightarrow> bool" where
  "is_data_frame line = startswith line ''data: ''"

definition payload :: "bytes \<Rightarrow> str" where
  "payload line = drop 6 line"

fun field :: "pyval \<Rightarrow> str \<Rightarrow> pyval option" where
  "field (PDict kvs) k = map_of kvs k"
| "field v k = None"

fun is_dict :: "pyval \<Rightarrow> bool" where
  "is_dict (PDict kvs) = True"
| "is_dict v = False"

definition spec_content :: "pyval \<Rightarrow> pyval" where
  "spec_content data =
     (case field data ''choices'' of
        Some (PList (c # cs)) \<Rightarrow>
          (case field c ''delta'' of
             Some d \<Rightarrow> (case field d ''content'' of Some v \<Rightarrow> v | None \<Rightarrow> PStr [])
           | None \<Rightarrow> PStr [])
      | _ \<Rightarrow> PStr [])"

definition spec_finish_reason :: "pyval \<Rightarrow> pyval" where
  "spec_finish_reason data =
     (case field data ''choices'' of
        Some (PList (c # cs)) \<Rightarrow> (case field c ''finish_reason'' of Some v \<Rightarrow> v | None \<Rightarrow> PNone)
      | _ \<Rightarrow> PNone)"

definition frame_event :: "decoder \<Rightarrow> bytes \<Rightarrow> pyval" where
  "frame_event loads line =
     (case loads (payload line) of
        Inl x \<Rightarrow> marker_event
      | Inr data \<Rightarrow> event (spec_content data) (spec_finish_reason data))"

text \<open>
  A decoded payload has the shape of a completion chunk when it is an object whose
  \<^verbatim>\<open>choices\<close>, if present, is a non-empty list that starts with an object whose
  \<^verbatim>\<open>delta\<close>, if present, is an object.
\<close>

definition well_shaped :: "pyval \<Rightarrow> bool" where
  "well_shaped data =
     (is_dict data \<and>
      (case field data ''choices'' of
         None \<Rightarrow> True
       | Some (PList (c # cs)) \<Rightarrow>
           is_dict c \<and> (case field c ''delta'' of None \<Rightarrow> True | Some d \<Rightarrow> is_dict d)
       | Some v \<Rightarrow> False))"

text \<open>
  A well-formed line of the upstream, short of the sentinel: valid UTF-8, and when it is
  a data frame its payload is not the sentinel and either is rejected by the decoder
  with JSONDecodeError or decodes to a well-shaped chunk.
\<close>

definition well_formed_line :: "decoder \<Rightarrow> bytes \<Rightarrow> bool" where
  "well_formed_line loads line =
     (utf8_ok (map of_char line) \<and>
      (if is_data_frame line
       then payload line \<noteq> ''[DONE]'' \<and>
            (case loads (payload line) of
               Inl x \<Rightarrow> x = JSONDecodeError
             | Inr data \<Rightarrow> well_shaped data)
       else True))"

section \<open>A JSON decoder to run the relay on concrete frames\<close>

text \<open>
  The endpoints are stated for any decoder.  To evaluate them on concrete lines, here
  is a decoder of the JSON texts made of objects, arrays, strings without escape
  sequences, integers, \<^verbatim>\<open>true\<close>, \<^verbatim>\<open>false\<close> and \<^verbatim>\<open>null\<close>; it rejects every other text
  with JSONDecodeError.  A repeated key keeps its first position and its last value, as
  in a Python dictionary.
\<close>

definition is_ws :: "char \<Rightarrow> bool" where
  "is_ws c = (c = CHR '' '' \<or> c = CHR 0x09 \<or> c = CHR 0x0A \<or> c = CHR 0x0D)"

definition skip_ws :: "str \<Rightarrow> str" where
  "skip_ws s = dropWhile is_ws s"

definition is_digit :: "char \<Rightarrow> bool" where
  "is_digit c = (48 \<le> (of_char c :: nat) \<and> (of_char c :: nat) \<le> 57)"

fun scan_string :: "str \<Rightarrow> (str \<times> str) option" where
  "scan_string [] = None"
| "scan_string (c # cs) =
     (if c = CHR 0x22 then Some ([], cs)
      else if c = CHR 0x5C \<or> (of_char c :: nat) < 0x20 then None
      else map_option (\<lambda>(s, r). (c # s, r)) (scan_string cs))"

definition digits_value :: "str \<Rightarrow> int" where
  "digits_value ds = foldl (\<lambda>n c. 10 * n + (int (of_char c) - 48)) 0 ds"

definition scan_int :: "str \<Rightarrow> (int \<times> str) option" where
  "scan_int s =
     (let neg = (take 1 s = ''-'');
          t = (if neg then drop 1 s else s);
          ds = takeWhile is_digit t;
          r = dropWhile is_digit t
      in if ds = [] \<or> (hd ds = CHR ''0'' \<and> length ds > 1) then None
         else if take 1 r = ''.'' \<or> take 1 r = ''e'' \<or> take 1 r = ''E'' then None
         else Some ((if neg then - digits_value ds else digits_value ds), r))"

fun dict_set :: "(str \<times> pyval) list \<Rightarrow> str \<Rightarrow> pyval \<Rightarrow> (str \<times> pyval) list" where
  "dict_set [] k v = [(k, v)]"
| "dict_set ((k', v') # kvs) k v =
     (if k' = k then (k, v) # kvs else (k', v') # dict_set kvs k v)"

fun parse_value :: "nat \<Rightarrow> str \<Rightarrow> (pyval \<times> str) option"
and parse_elements :: "nat \<Rightarrow> str \<Rightarrow> (pyval list \<times> str) option"
and parse_members :: "nat \<Rightarrow> str \<Rightarrow> ((str \<times> pyval) list \<times> str) option" where
  "parse_value 0 s = None"
| "parse_value (Suc n) s =
     (let t = skip_ws s in
      if take 4 t = ''null'' then Some (PNone, drop 4 t)
      else if take 4 t = ''true'' then Some (PBool True, drop 4 t)
      else if take 5 t = ''false'' then Some (PBool False, drop 5 t)
      else if take 1 t = [CHR 0x22] then
        map_option (\<lambda>(x, r). (PStr x, r)) (scan_string (drop 1 t))
      else if take 1 t = ''['' then
        (if take 1 (skip_ws (drop 1 t)) = '']''
         then Some (PList [], drop 1 (skip_ws (drop 1 t)))
         else map_option (\<lambda>(xs, r). (PList xs, r)) (parse_elements n (drop 1 t)))
      else if take 1 t = ''{'' then
        (if take 1 (skip_ws (drop 1 t)) = ''}''
         then Some (PDict [], drop 1 (skip_ws (drop 1 t)))
         else map_option (\<lambda>(kvs, r). (PDict (foldl (\<lambda>d (k, v). dict_set d k v) [] kvs), r))
                (parse_members n (drop 1 t)))
      else map_option (\<lambda>(i, r). (PInt i, r)) (scan_int t))"
| "parse_elements 0 s = None"
| "parse_elements (Suc n) s =
     (case parse_value n s of
        None \<Rightarrow> None
      | Some (v, r) \<Rightarrow>
          (let t = skip_ws r in
           if take 1 t = '','' then
             map_option (\<lambda>(vs, r'). (v # vs, r')) (parse_elements n (drop 1 t))
           else if take 1 t = '']'' then Some ([v], drop 1 t)
           else None))"
| "parse_members 0 s = None"
| "parse_members (Suc n) s =
     (let t = skip_ws s in
      if take 1 t = [CHR 0x22] then
        (case scan_string (drop 1 t) of
           None \<Rightarrow> None
         | Some (k, r1) \<Rightarrow>
             (let t1 = skip_ws r1 in
              if take 1 t1 = '':'' then
                (case parse_value n (drop 1 t1) of
                   None \<Rightarrow> None
                 | Some (v, r2) \<Rightarrow>
                     (let t2 = skip_ws r2 in
                      if take 1 t2 = '','' then
                        map_option (\<lambda>(kvs, r'). ((k, v) # kvs, r'))
                          (parse_members n (drop 1 t2))
                      else if take 1 t2 = ''}'' then Some ([(k, v)], drop 1 t2)
                      else None))
              else None))
      else None)"

definition parse_basic :: "str \<Rightarrow> pyval option" where
  "parse_basic s =
     (case parse_value (Suc (length s)) s of
        Some (v, r) \<Rightarrow> if skip_ws r = [] then Some v else None
      | None \<Rightarrow> None)"

definition loads_basic :: decoder where
  "loads_basic s = (case parse_basic s of None \<Rightarrow> Inl JSONDecodeError | Some v \<Rightarrow> Inr v)"

section \<open>Sample inputs\<close>

text \<open>
  Concrete lines, requests, module states and upstreams on which the definitions above
  are evaluated below.
\<close>

definition sample_chunk :: bytes where
  \<open>sample_chunk = ''data: {"choices":[{"delta":{"content":"hi"},"finish_reason":null}]}''\<close>

definition sample_last_chunk :: bytes where
  \<open>sample_last_chunk = ''data: {"choices":[{"delta":{},"finish_reason":"length"}]}''\<close>

definition sample_garbled :: bytes where
  \<open>sample_garbled = ''data: {"choices":[{"delta"''\<close>



definition sample_config :: pyval where
  "sample_config = PDict [(''deepseek'', PDict [(''api_key'', PStr ''sk-file'')])]"

definition sample_settings :: settings where
  "sample_settings =
     \<lparr> API_KEY = PStr ''sk-env'', API_BASE = PStr ''https://api.deepseek.com/v1'',
       DEFAULT_MODEL = PStr ''deepseek-chat'', SSL_VERIFY = PBool False,
       config = sample_config, deepseek_config = PDict [(''api_key'', PStr ''sk-file'')] \<rparr>"

definition unconfigured_settings :: settings where
  "unconfigured_settings =
     \<lparr> API_KEY = PStr [], API_BASE = PStr ''https://api.deepseek.com/v1'',
       DEFAULT_MODEL = PStr ''deepseek-chat'', SSL_VERIFY = PBool False,
       config = PDict [], deepseek_config = PDict [] \<rparr>"

definition env_only_settings :: settings where
  "env_only_settings = unconfigured_settings \<lparr> API_KEY := PStr ''sk-env'' \<rparr>"

definition sample_request :: chat_request where
  "sample_request =
     \<lparr> messages = [(''user'', ''hello'')], model = None, temperature = None, max_tokens = None,
       top_p = None, stream = Some False, json_mode = Some False \<rparr>"

definition sample_data :: "bool \<Rightarrow> pyval" where
  "sample_data streaming =
     PDict ([(''model'', PStr ''deepseek-chat''),
             (''messages'', PList [PDict [(''role'', PStr ''user''), (''content'', PStr ''hello'')]]),
             (''temperature'', PFloat 1 0),
             (''max_tokens'', PInt 1000)]
            @ (if streaming then [(''stream'', PBool True)] else []))"

definition sample_upstream :: "http_request \<Rightarrow> reply" where
  "sample_upstream rq =
     Reply \<lparr> status_code = 200, body_text = [],
             lines = [sample_chunk, [], done_line], ending = Closed \<rparr>"

definition sample_denied :: "http_request \<Rightarrow> reply" where
  \<open>sample_denied rq =
     Reply \<lparr> status_code = 401, body_text = ''{"error":{"message":"Authentication Fails"}}'',
             lines = [], ending = Closed \<rparr>\<close>

text \<open>An upstream that answers every request with status 200 and the given lines.\<close>

definition upstream_lines :: "bytes list \<Rightarrow> http_request \<Rightarrow> reply" where
  "upstream_lines ls rq =
     Reply \<lparr> status_code = 200, body_text = [], lines = ls, ending = Closed \<rparr>"

definition sample_files :: files where
  "sample_files = \<lparr> config_file = Some ''deepseek:'', writable = False \<rparr>"

section \<open>Properties of the loop alone\<close>

text \<open>
  Lemmas on the \<^verbatim>\<open>.get\<close> chains, on one pass of the loop body and on the loop of
  \<^verbatim>\<open>generate\<close>, taken by themselves: what lines 372 to 388 compute when they run.  They
  say nothing about a run of the endpoint, which ends at line 368 (next section).
\<close>

lemma py_get_dict:
  "is_dict v \<Longrightarrow> py_get v k d = Inr (case field v k of Some x \<Rightarrow> x | None \<Rightarrow> d)"
  by (cases v) simp_all

lemma py_get_nondict: "\<not> is_dict v \<Longrightarrow> py_get v k d = Inl AttributeError"
  by (cases v) simp_all

lemma py_index0_cases:
  "py_index0 v =
     (case v of
        PList [] \<Rightarrow> Inl IndexError
      | PList (x # xs) \<Rightarrow> Inr x
      | PStr [] \<Rightarrow> Inl IndexError
      | PStr (c # cs) \<Rightarrow> Inr (PStr (take (utf8_width c) (c # cs)))
      | PDict kvs \<Rightarrow> Inl KeyError
      | _ \<Rightarrow> Inl TypeError)"
  by (cases v) (auto split: list.splits)

lemma extract_event_well_shaped:
  assumes "well_shaped data"
  shows "extract_event data = Inr (event (spec_content data) (spec_finish_reason data))"
proof -
  from assms have dd: "is_dict data" by (simp add: well_shaped_def)
  note d = py_get_dict [OF dd]
  show ?thesis
  proof (cases "field data ''choices''")
    case None
    then show ?thesis
      by (simp add: extract_event_def bind_exc_def d spec_content_def spec_finish_reason_def)
  next
    case (Some ch)
    with assms obtain c cs where ch: "ch = PList (c # cs)" and cd: "is_dict c"
      and dl': "case field c ''delta'' of None \<Rightarrow> True | Some x \<Rightarrow> is_dict x"
      by (auto simp: well_shaped_def split: pyval.splits list.splits)
    have dl: "is_dict dl" if "field c ''delta'' = Some dl" for dl
      using dl' that by simp
    show ?thesis
    proof (cases "field c ''delta''")
      case None
      with Some ch show ?thesis
        by (simp add: extract_event_def bind_exc_def d py_get_dict [OF cd]
            spec_content_def spec_finish_reason_def)
    next
      case (Some dv)
      with \<open>field data ''choices'' = Some ch\<close> ch show ?thesis
        by (simp add: extract_event_def bind_exc_def d py_get_dict [OF cd]
            py_get_dict [OF dl [OF Some]] spec_content_def spec_finish_reason_def)
    qed
  qed
qed

lemma extract_event_ill_shaped:
  assumes "\<not> well_shaped data"
  shows "\<exists>x. extract_event data = Inl x \<and> x \<in> {AttributeError, IndexError, KeyError, TypeError}"
proof (cases "is_dict data")
  case False
  then show ?thesis
    by (simp add: extract_event_def bind_exc_def py_get_nondict)
next
  case True
  note d = py_get_dict [OF True]
  show ?thesis
  proof (cases "field data ''choices''")
    case None
    with True assms show ?thesis by (simp add: well_shaped_def)
  next
    case (Some ch)
    show ?thesis
    proof (cases "py_index0 ch")
      case (Inl x)
      then have "x \<in> {AttributeError, IndexError, KeyError, TypeError}"
        by (auto simp: py_index0_cases split: pyval.splits list.splits)
      with Inl Some show ?thesis
        by (simp add: extract_event_def bind_exc_def d)
    next
      case (Inr c)
      show ?thesis
      proof (cases "is_dict c")
        case False
        with Inr Some show ?thesis
          by (simp add: extract_event_def bind_exc_def d py_get_nondict)
      next
        case cd: True
        from Inr have "(\<exists>cs. ch = PList (c # cs)) \<or> (\<exists>s. ch = PStr s)"
          by (auto simp: py_index0_cases split: pyval.splits list.splits)
        moreover have "\<not> (\<exists>s. ch = PStr s)"
          using Inr cd by (auto simp: py_index0_cases split: list.splits)
        ultimately obtain cs where ch: "ch = PList (c # cs)" by blast
        with assms True Some cd obtain dl where dl: "field c ''delta'' = Some dl" "\<not> is_dict dl"
          by (auto simp: well_shaped_def split: option.splits)
        with Inr Some show ?thesis
          by (simp add: extract_event_def bind_exc_def d py_get_dict [OF cd] py_get_nondict)
      qed
    qed
  qed
qed

lemma extract_event_empty_choices:
  "field data ''choices'' = Some (PList []) \<Longrightarrow> extract_event data = Inl IndexError"
  by (cases data) (simp_all add: extract_event_def bind_exc_def)

lemma startswith_data: "startswith s ''data: '' = (take 6 s = ''data: '')"
  by (simp add: startswith_def eval_nat_numeral)

lemma process_line_done: "process_line loads done_line = YieldBreak stop_event"
  by (simp add: process_line_def done_line_def decode_utf8_def startswith_def)

lemma sentinel_unique:
  assumes "is_data_frame line" "payload line = ''[DONE]''"
  shows "line = done_line"
proof -
  have "take 6 line = ''data: ''"
    using assms(1) by (simp add: is_data_frame_def startswith_data)
  moreover have "drop 6 line = ''[DONE]''"
    using assms(2) by (simp add: payload_def)
  moreover have "line = take 6 line @ drop 6 line" by simp
  ultimately have "line = ''data: '' @ ''[DONE]''" by metis
  then show ?thesis by (simp add: done_line_def)
qed

lemma process_line_frame:
  assumes "utf8_ok (map of_char line)" "is_data_frame line" "payload line \<noteq> ''[DONE]''"
  shows "process_line loads line =
           (case loads (payload line) of
              Inl x \<Rightarrow> if x = JSONDecodeError then Yield marker_event else Raise x
            | Inr data \<Rightarrow> (case extract_event data of Inl x \<Rightarrow> Raise x | Inr ev \<Rightarrow> Yield ev))"
proof -
  from assms(2) have "line \<noteq> []" by (auto simp: is_data_frame_def startswith_def)
  with assms show ?thesis
    by (simp add: process_line_def decode_utf8_def is_data_frame_def payload_def)
qed

lemma process_line_well_formed:
  assumes "well_formed_line loads line"
  shows "process_line loads line =
           (if is_data_frame line then Yield (frame_event loads line) else Skip)"
proof (cases "is_data_frame line")
  case False
  from assms have "decode_utf8 line = Some line"
    by (simp add: well_formed_line_def decode_utf8_def)
  with False show ?thesis by (simp add: process_line_def is_data_frame_def)
next
  case True
  with assms have u: "utf8_ok (map of_char line)" and nd: "payload line \<noteq> ''[DONE]''"
    and sh: "case loads (payload line) of
               Inl x \<Rightarrow> x = JSONDecodeError
             | Inr data \<Rightarrow> well_shaped data"
    by (simp_all add: well_formed_line_def)
  show ?thesis
  proof (cases "loads (payload line)")
    case (Inl x)
    with sh have "x = JSONDecodeError" by simp
    with Inl True show ?thesis
      by (simp add: process_line_frame [OF u True nd] frame_event_def)
  next
    case (Inr data)
    with sh have "well_shaped data" by simp
    from extract_event_well_shaped [OF this] Inr True show ?thesis
      by (simp add: process_line_frame [OF u True nd] frame_event_def)
  qed
qed

lemma process_line_ill_formed:
  assumes "\<not> well_formed_line loads line" "line \<noteq> done_line"
  shows "\<exists>x. process_line loads line = Raise x"
proof (cases "utf8_ok (map of_char line)")
  case False
  then have "line \<noteq> []" by auto
  with False show ?thesis by (simp add: process_line_def decode_utf8_def)
next
  case True
  from assms(1) True have df: "is_data_frame line"
    by (auto simp: well_formed_line_def split: if_splits)
  from df assms(2) sentinel_unique have nd: "payload line \<noteq> ''[DONE]''" by blast
  show ?thesis
  proof (cases "loads (payload line)")
    case (Inl x)
    with assms(1) True df nd have "x \<noteq> JSONDecodeError"
      by (simp add: well_formed_line_def)
    with Inl show ?thesis
      by (simp add: process_line_frame [OF True df nd])
  next
    case (Inr data)
    with assms(1) True df nd have "\<not> well_shaped data"
      by (simp add: well_formed_line_def)
    from extract_event_ill_shaped [OF this] obtain x where "extract_event data = Inl x" by blast
    with Inr show ?thesis
      by (simp add: process_line_frame [OF True df nd])
  qed
qed

lemma relay_lines_prefix:
  assumes "list_all (well_formed_line loads) pre"
  shows "relay_lines loads (pre @ rest) e =
           (map (frame_event loads) (filter is_data_frame pre) @ fst (relay_lines loads rest e),
            snd (relay_lines loads rest e))"
  using assms
proof (induction pre)
  case Nil
  then show ?case by simp
next
  case (Cons l pre)
  then have wf: "well_formed_line loads l" and rest: "list_all (well_formed_line loads) pre"
    by simp_all
  from Cons.IH [OF rest] show ?case
    by (simp add: process_line_well_formed [OF wf])
qed

lemma relay_lines_well_formed:
  assumes "list_all (well_formed_line loads) ls"
  shows "relay_lines loads ls e =
           (map (frame_event loads) (filter is_data_frame ls),
            case e of Closed \<Rightarrow> Returned | Dropped \<Rightarrow> Raised ConnectionError)"
  using relay_lines_prefix [OF assms, of "[]" e] by (cases e) simp_all

lemma relay_lines_sentinel:
  "relay_lines loads (pre @ done_line # rest) e = relay_lines loads (pre @ [done_line]) e'"
  by (induction pre) (simp_all add: process_line_done split: step.splits)

lemma relay_lines_in_order:
  assumes "list_all (well_formed_line loads) pre"
  shows "relay_lines loads (pre @ done_line # rest) e =
           (map (frame_event loads) (filter is_data_frame pre) @ [stop_event], Returned)"
  by (simp add: relay_lines_prefix [OF assms] process_line_done)

lemma relay_lines_unterminated:
  assumes "done_line \<notin> set ls"
  shows "fst (relay_lines loads ls e) =
           map (frame_event loads) (filter is_data_frame (takeWhile (well_formed_line loads) ls))"
  using assms
proof (induction ls)
  case Nil
  then show ?case by (cases e) simp_all
next
  case (Cons l ls)
  then have nd: "l \<noteq> done_line" and rest: "done_line \<notin> set ls" by auto
  show ?case
  proof (cases "well_formed_line loads l")
    case True
    with Cons.IH [OF rest] show ?thesis
      by (simp add: process_line_well_formed [OF True])
  next
    case False
    from process_line_ill_formed [OF False nd] obtain x where "process_line loads l = Raise x"
      by blast
    with False show ?thesis by simp
  qed
qed

text \<open>
  The loop relays a well-formed sequence in order: one event for each data frame
  before the sentinel, then the terminal event, and nothing after it.  The same holds
  for the statements of the generator that follow the upstream call.
\<close>

lemma generate_body_in_order:
  assumes "raise_for_status r = None" and "lines r = pre @ done_line # rest"
    and "list_all (well_formed_line loads) pre"
  shows "generate_body loads (Reply r) =
           (map (frame_event loads) (filter is_data_frame pre) @ [stop_event], Returned)"
  using assms(1,2) by (simp add: generate_body_def relay_lines_in_order [OF assms(3)])

lemma generate_body_http_error:
  assumes "400 \<le> status_code r" and "status_code r < 600"
  shows "generate_body loads (Reply r) = ([], Raised (HTTPError (status_code r) (body_text r)))"
  using assms by (simp add: generate_body_def raise_for_status_def)

section \<open>The generator never reaches its loop\<close>

lemma generate_unbound: "generate loads net st cl = (([], Raised UnboundLocalError), [])"
  by (simp add: generate_def read_local_def)

lemma stream_endpoint_configured:
  assumes "truthy (API_KEY st)" and "build_data st req True = Inr data"
  shows "stream_endpoint loads net st req = (Inr ([], Raised UnboundLocalError), [])"
  using assms by (simp add: stream_endpoint_def stream_completion_def generate_unbound)

text \<open>
  The \<^verbatim>\<open>except\<close> clause of \<^verbatim>\<open>stream_completion\<close> is never taken: whatever the state and
  the request, the endpoint does not raise the HTTPException that the clause builds.
\<close>

lemma stream_completion_no_api_call_error:
  "stream_completion st req \<noteq> Inl (HTTPException code (ApiCallError x))"
  by (simp add: stream_completion_def split: sum.splits)

section \<open>The claims\<close>

text \<open>
  Claim C1: for every well-formed upstream line sequence that ends with the sentinel,
  the \<^verbatim>\<open>/stream\<close> relay emits one event for each data frame and one terminal event
  with finish reason \<^verbatim>\<open>stop\<close>, in the order of receipt.

  The loop does so (\<open>relay_lines_in_order\<close>, \<open>generate_body_in_order\<close>), but the
  generator does not reach it.  For an upstream that answers 200 with a chunk, an empty
  line and the sentinel, the statements after the upstream call would yield the event
  of the chunk and the terminal event; the endpoint yields nothing, ends with
  UnboundLocalError and has sent no request.
\<close>

theorem stream_relay_never_starts:
  "list_all (well_formed_line loads_basic) [sample_chunk, []]
   \<and> sample_upstream (completions_request sample_settings (sample_data True))
       = Reply \<lparr> status_code = 200, body_text = [],
                 lines = [sample_chunk, []] @ [done_line], ending = Closed \<rparr>
   \<and> generate_body loads_basic (sample_upstream (completions_request sample_settings (sample_data True)))
       = ([event (PStr ''hi'') PNone, stop_event], Returned)
   \<and> stream_endpoint loads_basic sample_upstream sample_settings sample_request
       = (Inr ([], Raised UnboundLocalError), [])"
  by code_simp

text \<open>
  Claim C2: a line whose payload after \<^verbatim>\<open>data: \<close> is the literal \<^verbatim>\<open>[DONE]\<close> makes the
  relay emit exactly the event with empty content and finish reason \<^verbatim>\<open>stop\<close> and then
  end the sequence.

  The endpoint does not: with a configured key, against an upstream that delivers the
  sentinel line and then a chunk, the run yields no event at all, ends with
  UnboundLocalError (line 368) and has sent no request.
\<close>

theorem sentinel_line_never_relayed:
  "is_data_frame done_line \<and> payload done_line = ''[DONE]''
   \<and> upstream_lines [done_line, sample_chunk]
         (completions_request sample_settings (sample_data True))
       = Reply \<lparr> status_code = 200, body_text = [],
                 lines = [done_line, sample_chunk], ending = Closed \<rparr>
   \<and> stream_endpoint loads_basic (upstream_lines [done_line, sample_chunk])
         sample_settings sample_request
       = (Inr ([], Raised UnboundLocalError), [])"
  by code_simp

text \<open>
  Claim C3: a data frame whose payload decodes as JSON makes the relay emit exactly one
  event with the content and finish reason of \<^verbatim>\<open>choices[0]\<close>; the frame with content
  \<^verbatim>\<open>hi\<close> gives the event with content \<^verbatim>\<open>hi\<close> and finish reason null.

  The endpoint does not: with a configured key, against an upstream that delivers that
  very frame, whose payload decodes, the run yields no event, ends with
  UnboundLocalError (line 368) and has sent no request.
\<close>

theorem decoded_frame_never_relayed:
  \<open>is_data_frame ''data: {"choices":[{"delta":{"content":"hi"},"finish_reason":null}]}''
   \<and> loads_basic (payload ''data: {"choices":[{"delta":{"content":"hi"},"finish_reason":null}]}'')
       = Inr (PDict [(''choices'',
            PList [PDict [(''delta'', PDict [(''content'', PStr ''hi'')]), (''finish_reason'', PNone)]])])
   \<and> stream_endpoint loads_basic
         (upstream_lines [''data: {"choices":[{"delta":{"content":"hi"},"finish_reason":null}]}''])
         sample_settings sample_request
       = (Inr ([], Raised UnboundLocalError), [])\<close>
  by code_simp

text \<open>
  Claim C4: a data frame whose payload fails JSON decoding does not abort the stream;
  the relay emits the marker event for it and goes on, so that between two valid frames
  the output is the first event, the marker, the second event.

  The endpoint does not: with a configured key, against an upstream that delivers a
  valid chunk, a frame that the decoder rejects with JSONDecodeError and another valid
  chunk, the run yields no event, neither marker nor chunk, ends with
  UnboundLocalError (line 368) and has sent no request.
\<close>

theorem undecodable_frame_never_marked:
  "is_data_frame sample_garbled \<and> loads_basic (payload sample_garbled) = Inl JSONDecodeError
   \<and> stream_endpoint loads_basic
         (upstream_lines [sample_chunk, sample_garbled, sample_last_chunk])
         sample_settings sample_request
       = (Inr ([], Raised UnboundLocalError), [])"
  by code_simp

text \<open>
  Claim C5: when the upstream answers \<^verbatim>\<open>/stream\<close> with a status outside 2xx, no event
  is emitted and an error with the upstream status and body is surfaced before anything
  is written downstream.

  For an upstream that answers 401, the statements after the upstream call would raise
  HTTPError with that status and body, inside the generator.  The endpoint has
  returned its streaming response by then: its \<^verbatim>\<open>except\<close> clause sees no exception, no
  HTTPException is raised, and the generator ends with UnboundLocalError before any
  request is sent.
\<close>

theorem stream_upstream_error_not_surfaced:
  \<open>generate_body loads_basic (sample_denied (completions_request sample_settings (sample_data True)))
       = ([], Raised (HTTPError 401 ''{"error":{"message":"Authentication Fails"}}''))
   \<and> stream_completion sample_settings sample_request
       = Inr \<lparr> cl_url_base = PStr ''https://api.deepseek.com/v1'', cl_bearer = PStr ''sk-env'',
               cl_data = sample_data True \<rparr>
   \<and> stream_endpoint loads_basic sample_denied sample_settings sample_request
       = (Inr ([], Raised UnboundLocalError), [])\<close>
  by code_simp

text \<open>
  Claim C6: with no credential configured, \<^verbatim>\<open>/chat\<close> and \<^verbatim>\<open>/stream\<close> both fail with
  the configuration error (HTTPException 500) and send no upstream request, whatever
  the request and the upstream.
\<close>

theorem missing_key_fails_before_io:
  assumes "\<not> truthy (API_KEY st)"
  shows "chat_completion loads net st req = (Inl (HTTPException 500 KeyNotConfigured), [])
       \<and> stream_endpoint loads net st req = (Inl (HTTPException 500 KeyNotConfigured), [])"
  using assms by (simp add: chat_completion_def stream_endpoint_def stream_completion_def)

theorem missing_key_fails_before_io_witness:
  "module_init None (PDict []) = Inr unconfigured_settings
   \<and> \<not> truthy (API_KEY unconfigured_settings)
   \<and> chat_completion loads_basic sample_upstream unconfigured_settings sample_request
       = (Inl (HTTPException 500 KeyNotConfigured), [])
   \<and> stream_endpoint loads_basic sample_upstream unconfigured_settings sample_request
       = (Inl (HTTPException 500 KeyNotConfigured), [])"
proof -
  have i: "module_init None (PDict []) = Inr unconfigured_settings" by code_simp
  have h: "\<not> truthy (API_KEY unconfigured_settings)" by code_simp
  from missing_key_fails_before_io [OF h, of loads_basic sample_upstream sample_request] i h
  show ?thesis by (intro conjI) simp_all
qed


text \<open>
  Claim C8: every operation that needs the credential uses the environment variable
  when it is set, and the configuration file otherwise.

  With the variable set to \<^verbatim>\<open>sk-env\<close> and the file holding \<^verbatim>\<open>sk-file\<close>, chat, stream and
  check_api_key use \<^verbatim>\<open>sk-env\<close>, but list_models and get_user_balance send
  \<^verbatim>\<open>sk-file\<close>; with the variable set and no key in the file, they fail as if no key
  were configured.
\<close>

theorem account_endpoints_ignore_environment_key:
  "module_init (Some ''sk-env'') sample_config = Inr sample_settings
   \<and> map bearer (snd (chat_completion loads_basic sample_upstream sample_settings sample_request))
       = [PStr ''sk-env'']
   \<and> map_sum id cl_bearer (stream_completion sample_settings sample_request) = Inr (PStr ''sk-env'')
   \<and> check_api_key sample_settings
       = Send (models_request sample_settings (PStr ''https://api.deepseek.com/v1'') ''/models''
                 (PStr ''sk-env''))
   \<and> list_models sample_settings
       = Send (models_request sample_settings (PStr ''https://api.deepseek.com/v1'') ''/models''
                 (PStr ''sk-file''))
   \<and> get_user_balance sample_settings
       = Send (models_request sample_settings (PStr ''https://api.deepseek.com/v1'') ''/user/balance''
                 (PStr ''sk-file''))
   \<and> module_init (Some ''sk-env'') (PDict []) = Inr env_only_settings
   \<and> list_models env_only_settings = Fail (HTTPException 500 (ModelListError (Http 401)))
   \<and> get_user_balance env_only_settings = Fail (HTTPException 500 (BalanceError (Http 401)))"
  by code_simp


text \<open>
  Claim C10: \<^verbatim>\<open>set_api_key\<close> is not atomic.  When the upstream accepts the new key and
  saving it to the configuration file fails, the answer reports no success, yet the
  global \<^verbatim>\<open>API_KEY\<close> is the new key, and later chat and stream requests carry it.
\<close>

theorem set_api_key_not_atomic:
  assumes "config_get st ''api_base'' (PStr ''https://api.deepseek.com/v1'') = Inr base"
    and "net (models_request st base ''/models'' (PStr key)) = Reply r"
    and "status_code r = 200"
    and "persist_key patch yaml_load fs key = None"
  shows "set_api_key net patch yaml_load fs st key
           = (Inr \<lparr> success = False, message = SaveFailed \<rparr>, st \<lparr> API_KEY := PStr key \<rparr>,
              [models_request st base ''/models'' (PStr key)], None)
       \<and> (key \<noteq> [] \<and> stream req \<noteq> Some True \<and> build_data st req False = Inr data \<longrightarrow>
            map bearer (snd (chat_completion loads net' (st \<lparr> API_KEY := PStr key \<rparr>) req))
              = [PStr key])
       \<and> (key \<noteq> [] \<and> build_data st req True = Inr data' \<longrightarrow>
            map_sum id cl_bearer (stream_completion (st \<lparr> API_KEY := PStr key \<rparr>) req)
              = Inr (PStr key))"
proof -
  have m: "model_or_default (st \<lparr> API_KEY := PStr key \<rparr>) req = model_or_default st req"
    by (simp add: model_or_default_def split: option.splits)
  have b: "build_data (st \<lparr> API_KEY := PStr key \<rparr>) req s = build_data st req s" for s
    by (simp add: build_data_def m)
  have "set_api_key net patch yaml_load fs st key
           = (Inr \<lparr> success = False, message = SaveFailed \<rparr>, st \<lparr> API_KEY := PStr key \<rparr>,
              [models_request st base ''/models'' (PStr key)], None)"
    using assms by (simp add: set_api_key_def)
  then show ?thesis
    by (simp add: chat_completion_def stream_completion_def b completions_request_def Let_def)
qed

theorem set_api_key_not_atomic_witness:
  "config_get sample_settings ''api_base'' (PStr ''https://api.deepseek.com/v1'')
     = Inr (PStr ''https://api.deepseek.com/v1'')
   \<and> sample_upstream (models_request sample_settings (PStr ''https://api.deepseek.com/v1'')
        ''/models'' (PStr ''sk-new'')) = Reply \<lparr> status_code = 200, body_text = [],
             lines = [sample_chunk, [], done_line], ending = Closed \<rparr>
   \<and> persist_key (\<lambda>content k. Some (content @ k)) parse_basic sample_files ''sk-new'' = None
   \<and> fst (set_api_key sample_upstream (\<lambda>content k. Some (content @ k)) parse_basic sample_files
         sample_settings ''sk-new'') = Inr \<lparr> success = False, message = SaveFailed \<rparr>
   \<and> API_KEY (fst (snd (set_api_key sample_upstream (\<lambda>content k. Some (content @ k)) parse_basic
         sample_files sample_settings ''sk-new''))) = PStr ''sk-new''
   \<and> map bearer (snd (chat_completion loads_basic sample_upstream
         (fst (snd (set_api_key sample_upstream (\<lambda>content k. Some (content @ k)) parse_basic
            sample_files sample_settings ''sk-new''))) sample_request)) = [PStr ''sk-new'']
   \<and> map_sum id cl_bearer (stream_completion
         (fst (snd (set_api_key sample_upstream (\<lambda>content k. Some (content @ k)) parse_basic
            sample_files sample_settings ''sk-new''))) sample_request) = Inr (PStr ''sk-new'')"
proof -
  let ?base = "PStr ''https://api.deepseek.com/v1''"
  let ?r = "\<lparr> status_code = 200, body_text = [],
             lines = [sample_chunk, [], done_line], ending = Closed \<rparr>"
  let ?patch = "\<lambda>content k. Some (content @ k)"
  have h1: "config_get sample_settings ''api_base'' ?base = Inr ?base" by code_simp
  have h2: "sample_upstream (models_request sample_settings ?base ''/models'' (PStr ''sk-new''))
              = Reply ?r"
    by (simp add: sample_upstream_def)
  have h3: "status_code ?r = 200" by simp
  have h4: "persist_key ?patch parse_basic sample_files ''sk-new'' = None"
    by (simp add: persist_key_def sample_files_def)
  have k: "''sk-new'' \<noteq> [] \<and> stream sample_request \<noteq> Some True
           \<and> build_data sample_settings sample_request False = Inr (sample_data False)"
    by code_simp
  have k': "''sk-new'' \<noteq> [] \<and> build_data sample_settings sample_request True = Inr (sample_data True)"
    by code_simp
  note t = set_api_key_not_atomic [where net = sample_upstream and st = sample_settings
      and key = "''sk-new''" and patch = ?patch and yaml_load = parse_basic and fs = sample_files
      and req = sample_request and data = "sample_data False" and data' = "sample_data True"
      and loads = loads_basic and net' = sample_upstream, OF h1 h2 h3 h4]
  from t have s: "set_api_key sample_upstream ?patch parse_basic sample_files sample_settings ''sk-new''
           = (Inr \<lparr> success = False, message = SaveFailed \<rparr>,
              sample_settings \<lparr> API_KEY := PStr ''sk-new'' \<rparr>,
              [models_request sample_settings ?base ''/models'' (PStr ''sk-new'')], None)"
    by (rule conjunct1)
  from t k have c: "map bearer (snd (chat_completion loads_basic sample_upstream
         (sample_settings \<lparr> API_KEY := PStr ''sk-new'' \<rparr>) sample_request)) = [PStr ''sk-new'']"
    by blast
  from t k' have d: "map_sum id cl_bearer (stream_completion
         (sample_settings \<lparr> API_KEY := PStr ''sk-new'' \<rparr>) sample_request) = Inr (PStr ''sk-new'')"
    by blast
  from h1 h2 h4 s c d show ?thesis by (simp only: fst_conv snd_conv) simp
qed

end
